theory Spec2Isabelle
  imports Complex_Main "HOL-Library.AList"
begin

section \<open>Python values shared by the five engines\<close>

text \<open>
  The engines of \<^verbatim>\<open>src/patterns\<close> are plain Python classes. Conventions of this
  embedding:
  \<^item> a Python \<^verbatim>\<open>float\<close> is a \<^typ>\<open>real\<close>: arithmetic is exact, rounding is not modelled;
  \<^item> a Python \<^verbatim>\<open>int\<close> is an \<^typ>\<open>int\<close>;
  \<^item> a \<^verbatim>\<open>dict\<close> is an association list in insertion order, the order Python iterates
    in; \<^const>\<open>AList.update\<close> is \<^verbatim>\<open>d[k] = v\<close> (an existing key keeps its place, a new
    key goes last);
  \<^item> a method that mutates \<^verbatim>\<open>self\<close> returns the new object; a method that can raise
    returns \<open>py_error + 'a\<close>;
  \<^item> timestamps (\<^verbatim>\<open>datetime.now()\<close>) are left out: no operation reads them.
\<close>

datatype py_error = ZeroDivisionError | IndexError | AttributeError | KeyError | WorkerException

text \<open>The values of the result dictionaries the engines return.\<close>

datatype py_value =
    PyNone
  | PyStr string
  | PyFloat real
  | PyInt int
  | PyBool bool
  | PyDict "(string \<times> py_value) list"
  | PyList "py_value list"

text \<open>
  \<^verbatim>\<open>max(xs, key=f)\<close> and \<^verbatim>\<open>min(xs, key=f)\<close> walk the iterable once and replace the
  running best only on a strictly greater (strictly smaller) key, so the first extreme
  element in iteration order wins. The caller supplies the first element, having checked
  that the iterable is not empty.
\<close>

fun max_loop :: "('a \<Rightarrow> 'b::linorder) \<Rightarrow> 'a \<Rightarrow> 'a list \<Rightarrow> 'a" where
  "max_loop key best [] = best"
| "max_loop key best (y # ys) = max_loop key (if key best < key y then y else best) ys"

fun min_loop :: "('a \<Rightarrow> 'b::linorder) \<Rightarrow> 'a \<Rightarrow> 'a list \<Rightarrow> 'a" where
  "min_loop key best [] = best"
| "min_loop key best (y # ys) = min_loop key (if key y < key best then y else best) ys"

text \<open>\<^verbatim>\<open>str(n)\<close> for a non-negative integer, as the f-strings format it.\<close>

definition digit_char :: "nat \<Rightarrow> char" where
  "digit_char d = ''0123456789'' ! d"

function str_nat :: "nat \<Rightarrow> string" where
  "str_nat n = (if n < 10 then [digit_char n] else str_nat (n div 10) @ [digit_char (n mod 10)])"
  by pat_completeness auto
termination
  by (relation "measure (\<lambda>n. n)") auto

declare str_nat.simps [simp del]

definition str_int :: "int \<Rightarrow> string" where
  "str_int i = (if i < 0 then CHR ''-'' # str_nat (nat (- i)) else str_nat (nat i))"


section \<open>Consensus engine (\<^verbatim>\<open>consensus_pattern.py\<close>)\<close>

datatype VotingStrategy = SIMPLE_MAJORITY | WEIGHTED_CONFIDENCE | UNANIMOUS

record Vote =
  agent_name :: string
  option :: string
  confidence :: real
  reasoning :: string

record ConsensusEngine =
  strategy :: VotingStrategy
  votes :: "Vote list"

definition ConsensusEngine_init :: "VotingStrategy \<Rightarrow> ConsensusEngine" where
  "ConsensusEngine_init st = \<lparr>strategy = st, votes = []\<rparr>"

definition add_vote :: "ConsensusEngine \<Rightarrow> string \<Rightarrow> string \<Rightarrow> real \<Rightarrow> string \<Rightarrow> ConsensusEngine" where
  "add_vote self agent opt conf reason =
     (let vote = \<lparr>agent_name = agent, option = opt,
                   confidence = max 0 (min 1 conf), reasoning = reason\<rparr>
      in self\<lparr>votes := votes self @ [vote]\<rparr>)"

text \<open>
  The body of the loop of \<^verbatim>\<open>_weighted_consensus\<close>: a new option enters both dictionaries
  with 0, then the vote's confidence and one count are added. The two dictionaries always
  hold the same keys, so the \<^verbatim>\<open>+=\<close> never meets a missing key.
\<close>

definition weighted_tally ::
  "(string \<times> real) list \<times> (string \<times> int) list \<Rightarrow> Vote \<Rightarrow> (string \<times> real) list \<times> (string \<times> int) list" where
  "weighted_tally acc vote =
     (let (option_scores, option_counts) = acc;
          (option_scores, option_counts) =
            (if map_of option_scores (option vote) = None
             then (AList.update (option vote) 0 option_scores,
                   AList.update (option vote) 0 option_counts)
             else (option_scores, option_counts))
      in (AList.map_entry (option vote) (\<lambda>s. s + confidence vote) option_scores,
          AList.map_entry (option vote) (\<lambda>c. c + 1) option_counts))"

text \<open>
  The \<^verbatim>\<open>vote_breakdown\<close> comprehension:
  \<^verbatim>\<open>{opt: option_scores[opt] / option_counts[opt] for opt in option_scores.keys()}\<close>.
\<close>

fun vote_breakdown :: "(string \<times> real) list \<Rightarrow> (string \<times> int) list \<Rightarrow> py_error + (string \<times> py_value) list" where
  "vote_breakdown [] option_counts = Inr []"
| "vote_breakdown ((opt, score) # rest) option_counts =
     (case map_of option_counts opt of
        None \<Rightarrow> Inl KeyError
      | Some n \<Rightarrow>
          if n = 0 then Inl ZeroDivisionError
          else (case vote_breakdown rest option_counts of
                  Inl e \<Rightarrow> Inl e
                | Inr bd \<Rightarrow> Inr ((opt, PyFloat (score / real_of_int n)) # bd)))"

text \<open>
  \<^verbatim>\<open>max(option_scores.keys(), key=lambda x: option_scores[x])\<close> is the key of the first
  entry with the greatest value, so the loop runs over the entries and compares their
  values. The float division by \<^verbatim>\<open>total_confidence\<close> raises when the total is zero.
\<close>

definition weighted_consensus :: "ConsensusEngine \<Rightarrow> py_error + (string \<times> py_value) list" where
  "weighted_consensus self =
     (let (option_scores, option_counts) = foldl weighted_tally ([], []) (votes self)
      in case option_scores of
           [] \<Rightarrow> Inr [(''consensus'', PyNone)]
         | e # es \<Rightarrow>
             (let best_option = max_loop snd e es;
                  total_confidence = sum_list (map snd option_scores)
              in if total_confidence = 0 then Inl ZeroDivisionError
                 else (case vote_breakdown option_scores option_counts of
                         Inl err \<Rightarrow> Inl err
                       | Inr bd \<Rightarrow>
                           Inr [(''consensus'', PyStr (fst best_option)),
                                (''confidence'', PyFloat (snd best_option / total_confidence)),
                                (''vote_breakdown'', PyDict bd)])))"

definition majority_tally :: "(string \<times> int) list \<Rightarrow> Vote \<Rightarrow> (string \<times> int) list" where
  "majority_tally option_counts vote =
     AList.update (option vote)
       ((case map_of option_counts (option vote) of None \<Rightarrow> 0 | Some n \<Rightarrow> n) + 1)
       option_counts"

definition majority_consensus :: "ConsensusEngine \<Rightarrow> (string \<times> py_value) list" where
  "majority_consensus self =
     (let option_counts = foldl majority_tally [] (votes self)
      in case option_counts of
           [] \<Rightarrow> [(''consensus'', PyNone)]
         | e # es \<Rightarrow>
             (let best_option = max_loop snd e es
              in [(''consensus'', PyStr (fst best_option)),
                  (''votes_for'', PyInt (snd best_option)),
                  (''total_votes'', PyInt (int (length (votes self))))]))"

definition unanimous_consensus :: "ConsensusEngine \<Rightarrow> (string \<times> py_value) list" where
  "unanimous_consensus self =
     (case votes self of
        [] \<Rightarrow> [(''consensus'', PyNone), (''unanimous'', PyBool False)]
      | v0 # _ \<Rightarrow>
          (let first_option = option v0;
               unanimous = list_all (\<lambda>v. option v = first_option) (votes self)
           in [(''consensus'', if unanimous then PyStr first_option else PyNone),
               (''unanimous'', PyBool unanimous)]))"

text \<open>
  \<^verbatim>\<open>calculate_consensus\<close> assigns nothing to \<^verbatim>\<open>self\<close>; the engine is returned beside the
  result as the call leaves it. The final \<^verbatim>\<open>return {"consensus": None}\<close> of the source is
  not reachable for a member of the enumeration.
\<close>

definition calculate_consensus ::
  "ConsensusEngine \<Rightarrow> (py_error + (string \<times> py_value) list) \<times> ConsensusEngine" where
  "calculate_consensus self =
     (if votes self = [] then (Inr [(''consensus'', PyNone), (''confidence'', PyFloat 0)], self)
      else (case strategy self of
              WEIGHTED_CONFIDENCE \<Rightarrow> (weighted_consensus self, self)
            | SIMPLE_MAJORITY \<Rightarrow> (Inr (majority_consensus self), self)
            | UNANIMOUS \<Rightarrow> (Inr (unanimous_consensus self), self)))"


section \<open>Debate engine (\<^verbatim>\<open>debate_pattern.py\<close>)\<close>

datatype DebatePosition = PROPOSER | CRITIC

record Argument =
  debate_position :: DebatePosition
  content :: string
  confidence_score :: real
  supporting_evidence :: "string list"

record DebateRound =
  round_number :: int
  proposer_argument :: "Argument option"
  critic_argument :: "Argument option"
  consensus_score :: real

record DebateOrchestrator =
  num_rounds :: int
  scoring_strategy :: string
  rounds :: "DebateRound list"

definition DebateOrchestrator_init :: "int \<Rightarrow> string \<Rightarrow> DebateOrchestrator" where
  "DebateOrchestrator_init n strat = \<lparr>num_rounds = n, scoring_strategy = strat, rounds = []\<rparr>"

text \<open>\<^verbatim>\<open>_calculate_consensus\<close> of the orchestrator: the score of one round.\<close>

definition calculate_consensus_debate :: "DebateOrchestrator \<Rightarrow> Argument \<Rightarrow> Argument \<Rightarrow> real" where
  "calculate_consensus_debate self proposer_arg critic_arg =
     (if scoring_strategy self = ''entropy_reduction''
      then min (confidence_score proposer_arg) (confidence_score critic_arg)
      else if scoring_strategy self = ''agreement_measure''
      then (confidence_score proposer_arg + confidence_score critic_arg) / 2
      else 0.5)"

text \<open>
  The body of the \<^verbatim>\<open>for round_num in range(1, self.num_rounds + 1)\<close> loop: the round
  it builds, and the append to \<^verbatim>\<open>self.rounds\<close>.
\<close>

definition make_round :: "DebateOrchestrator \<Rightarrow> string \<Rightarrow> int \<Rightarrow> DebateRound" where
  "make_round self proposer_position round_num =
     (let proposer_arg =
            \<lparr>debate_position = PROPOSER,
             content = ''Round '' @ str_int round_num @ '': '' @ proposer_position,
             confidence_score = 0.8 + real_of_int round_num * 0.05,
             supporting_evidence = []\<rparr>;
          critic_arg =
            \<lparr>debate_position = CRITIC,
             content = ''Round '' @ str_int round_num @ '': Counter-argument'',
             confidence_score = 0.7 + real_of_int round_num * 0.04,
             supporting_evidence = []\<rparr>
      in \<lparr>round_number = round_num,
          proposer_argument = Some proposer_arg,
          critic_argument = Some critic_arg,
          consensus_score = calculate_consensus_debate self proposer_arg critic_arg\<rparr>)"

definition debate_round :: "string \<Rightarrow> DebateOrchestrator \<Rightarrow> int \<Rightarrow> DebateOrchestrator" where
  "debate_round proposer_position self round_num =
     self\<lparr>rounds := rounds self @ [make_round self proposer_position round_num]\<rparr>"

text \<open>
  \<^verbatim>\<open>_generate_consensus\<close>: the mean is computed first, so an empty round list raises
  \<^verbatim>\<open>ZeroDivisionError\<close> before \<^verbatim>\<open>self.rounds[-1]\<close> is read.
\<close>

definition generate_consensus :: "DebateOrchestrator \<Rightarrow> py_error + (string \<times> py_value) list" where
  "generate_consensus self =
     (if rounds self = [] then Inl ZeroDivisionError
      else
        (let avg_consensus =
               sum_list (map consensus_score (rounds self)) / real (length (rounds self));
             final_round = last (rounds self)
         in case proposer_argument final_round of
              None \<Rightarrow> Inl AttributeError
            | Some pa \<Rightarrow>
                (case critic_argument final_round of
                   None \<Rightarrow> Inl AttributeError
                 | Some ca \<Rightarrow>
                     Inr [(''topic'', PyStr ''Debate topic''),
                          (''total_rounds'', PyInt (int (length (rounds self)))),
                          (''avg_consensus_score'', PyFloat avg_consensus),
                          (''proposer_final_confidence'', PyFloat (confidence_score pa)),
                          (''critic_final_confidence'', PyFloat (confidence_score ca)),
                          (''consensus_reached'', PyBool (avg_consensus > 0.75)),
                          (''rounds'',
                           PyList (map (\<lambda>r. PyDict [(''round'', PyInt (round_number r)),
                                                    (''consensus'', PyFloat (consensus_score r))])
                                       (rounds self)))])))"

definition run_debate ::
  "DebateOrchestrator \<Rightarrow> string \<Rightarrow> string \<Rightarrow> (py_error + (string \<times> py_value) list) \<times> DebateOrchestrator" where
  "run_debate self topic proposer_position =
     (let self = self\<lparr>rounds := []\<rparr>;
          self = foldl (debate_round proposer_position) self [1..num_rounds self]
      in (generate_consensus self, self))"


section \<open>Pipeline orchestrator (\<^verbatim>\<open>pipeline_pattern.py\<close>)\<close>

text \<open>
  A payload is a \<^verbatim>\<open>Dict[str, Any]\<close>; validation only asks which keys it has, so it is a
  map from field names to values of any type. A stage is its name, its two schemas and its
  \<^verbatim>\<open>execute\<close> method, which returns the new payload or \<^verbatim>\<open>None\<close>.
\<close>

record SchemaValidation =
  required_fields :: "string list"
  optional_fields :: "string list option"

definition validate :: "SchemaValidation \<Rightarrow> (string \<rightharpoonup> 'v) \<Rightarrow> bool" where
  "validate schema data = list_all (\<lambda>field. data field \<noteq> None) (required_fields schema)"

record 'v PipelineStage =
  stage_name :: string
  input_schema :: SchemaValidation
  output_schema :: SchemaValidation
  execute_stage :: "(string \<rightharpoonup> 'v) \<Rightarrow> (string \<rightharpoonup> 'v) option"

text \<open>A trace entry \<^verbatim>\<open>{"stage": name, "data": result}\<close> is the pair of the two.\<close>

record 'v PipelineOrchestrator =
  pipeline_name :: string
  stages :: "'v PipelineStage list"
  execution_history :: "(string \<times> (string \<rightharpoonup> 'v)) list"

definition PipelineOrchestrator_init :: "string \<Rightarrow> 'v PipelineOrchestrator" where
  "PipelineOrchestrator_init n = \<lparr>pipeline_name = n, stages = [], execution_history = []\<rparr>"


text \<open>
  The \<^verbatim>\<open>for stage in self.stages\<close> loop of \<^verbatim>\<open>execute\<close>, with the current payload and the
  history as its state. Each \<^verbatim>\<open>return None\<close> leaves the history as it stands.
\<close>

fun execute_loop ::
  "'v PipelineStage list \<Rightarrow> (string \<rightharpoonup> 'v) \<Rightarrow> string list \<Rightarrow> (string \<times> (string \<rightharpoonup> 'v)) list
     \<Rightarrow> (string \<rightharpoonup> 'v) option \<times> (string \<times> (string \<rightharpoonup> 'v)) list" where
  "execute_loop [] current_data skip_stages history = (Some current_data, history)"
| "execute_loop (stage # rest) current_data skip_stages history =
     (if stage_name stage \<in> set skip_stages then execute_loop rest current_data skip_stages history
      else if \<not> validate (input_schema stage) current_data then (None, history)
      else (case execute_stage stage current_data of
              None \<Rightarrow> (None, history)
            | Some result \<Rightarrow>
                if \<not> validate (output_schema stage) result then (None, history)
                else execute_loop rest result skip_stages
                       (history @ [(stage_name stage, result)])))"

definition execute ::
  "'v PipelineOrchestrator \<Rightarrow> (string \<rightharpoonup> 'v) \<Rightarrow> string list option
     \<Rightarrow> (string \<rightharpoonup> 'v) option \<times> 'v PipelineOrchestrator" where
  "execute self initial_data skip_stages =
     (let skip_stages = (case skip_stages of None \<Rightarrow> [] | Some names \<Rightarrow> names);
          (res, history) =
            execute_loop (stages self) initial_data skip_stages (execution_history self)
      in (res, self\<lparr>execution_history := history\<rparr>))"

definition get_execution_trace :: "'v PipelineOrchestrator \<Rightarrow> (string \<times> (string \<rightharpoonup> 'v)) list" where
  "get_execution_trace self = execution_history self"


section \<open>Supervisor and workers (\<^verbatim>\<open>supervisor_pattern.py\<close>)\<close>

record 'r Task =
  task_id :: string
  description :: string
  assigned_to :: "string option"
  status :: string
  result :: "'r option"

record WorkerAgent =
  name :: string
  expertise :: "string option"
  completed_tasks :: int
  failed_tasks :: int

definition WorkerAgent_init :: "string \<Rightarrow> string option \<Rightarrow> WorkerAgent" where
  "WorkerAgent_init n e = \<lparr>name = n, expertise = e, completed_tasks = 0, failed_tasks = 0\<rparr>"

definition get_load :: "WorkerAgent \<Rightarrow> real" where
  "get_load w =
     real_of_int (failed_tasks w) / real_of_int (max 1 (completed_tasks w + failed_tasks w))"

text \<open>
  The two registries are dictionaries: \<^verbatim>\<open>workers\<close> keyed by worker name, \<^verbatim>\<open>tasks\<close> by
  task id. A worker or task object is reached through its key: a mutation of the object is
  a write to its entry.
\<close>

record 'r SupervisorAgent =
  supervisor_name :: string
  workers :: "(string \<times> WorkerAgent) list"
  tasks :: "(string \<times> 'r Task) list"
  max_retries :: int
  timeout :: real

definition SupervisorAgent_init :: "string \<Rightarrow> int \<Rightarrow> real \<Rightarrow> 'r SupervisorAgent" where
  "SupervisorAgent_init n retries t =
     \<lparr>supervisor_name = n, workers = [], tasks = [], max_retries = retries, timeout = t\<rparr>"

definition register_worker :: "'r SupervisorAgent \<Rightarrow> WorkerAgent \<Rightarrow> 'r SupervisorAgent" where
  "register_worker self worker = self\<lparr>workers := AList.update (name worker) worker (workers self)\<rparr>"

text \<open>\<^verbatim>\<open>if expertise:\<close> holds for a string that is neither \<^verbatim>\<open>None\<close> nor empty.\<close>

definition truthy :: "string option \<Rightarrow> bool" where
  "truthy e = (case e of None \<Rightarrow> False | Some s \<Rightarrow> s \<noteq> [])"

definition candidates_for :: "'r SupervisorAgent \<Rightarrow> string option \<Rightarrow> WorkerAgent list" where
  "candidates_for self e =
     (let candidates = map snd (workers self)
      in if truthy e then filter (\<lambda>w. expertise w = e) candidates else candidates)"

definition select_worker :: "'r SupervisorAgent \<Rightarrow> string option \<Rightarrow> WorkerAgent option" where
  "select_worker self e =
     (case candidates_for self e of
        [] \<Rightarrow> None
      | w # ws \<Rightarrow> Some (min_loop get_load w ws))"

text \<open>
  What one \<^verbatim>\<open>await asyncio.wait_for(worker.execute(task), timeout=...)\<close> does: it returns a
  result, raises \<^verbatim>\<open>asyncio.TimeoutError\<close>, or raises something else, which
  \<^verbatim>\<open>delegate_task\<close> does not catch. The worker's behaviour is a parameter: the outcome of
  each attempt, by attempt number. The backoff sleep changes no state and is left out.
\<close>

datatype 'r attempt = Returned 'r | TimedOut | Raised

text \<open>
  The \<^verbatim>\<open>for attempt in range(self.max_retries)\<close> loop, over the attempt numbers still to
  run, with the local \<^verbatim>\<open>task\<close> and \<^verbatim>\<open>worker\<close> written back to their registries at each
  field assignment.
\<close>

fun attempt_loop ::
  "(nat \<Rightarrow> 'r attempt) \<Rightarrow> nat list \<Rightarrow> 'r Task \<Rightarrow> WorkerAgent \<Rightarrow> 'r SupervisorAgent
     \<Rightarrow> (py_error + 'r option) \<times> 'r SupervisorAgent" where
  "attempt_loop run [] task worker self = (Inr None, self)"
| "attempt_loop run (attempt # rest) task worker self =
     (let task = task\<lparr>status := ''running''\<rparr>;
          self = self\<lparr>tasks := AList.update (task_id task) task (tasks self)\<rparr>
      in case run attempt of
           Returned res \<Rightarrow>
             (let task = task\<lparr>status := ''completed'', result := Some res\<rparr>;
                  worker = worker\<lparr>completed_tasks := completed_tasks worker + 1\<rparr>
              in (Inr (Some res),
                  self\<lparr>tasks := AList.update (task_id task) task (tasks self),
                       workers := AList.update (name worker) worker (workers self)\<rparr>))
         | Raised \<Rightarrow> (Inl WorkerException, self)
         | TimedOut \<Rightarrow>
             (let task = task\<lparr>status := ''failed''\<rparr>;
                  worker = worker\<lparr>failed_tasks := failed_tasks worker + 1\<rparr>;
                  self = self\<lparr>tasks := AList.update (task_id task) task (tasks self),
                              workers := AList.update (name worker) worker (workers self)\<rparr>
              in attempt_loop run rest task worker self))"

definition delegate_task ::
  "'r SupervisorAgent \<Rightarrow> string \<Rightarrow> string option \<Rightarrow> (nat \<Rightarrow> 'r attempt)
     \<Rightarrow> (py_error + 'r option) \<times> 'r SupervisorAgent" where
  "delegate_task self task_description e run =
     (case select_worker self e of
        None \<Rightarrow> (Inr None, self)
      | Some worker \<Rightarrow>
          (let task = \<lparr>task_id = ''task_'' @ str_nat (length (tasks self)),
                       description = task_description,
                       assigned_to = Some (name worker),
                       status = ''pending'',
                       result = None\<rparr>;
               self = self\<lparr>tasks := AList.update (task_id task) task (tasks self)\<rparr>
           in attempt_loop run [0..<nat (max_retries self)] task worker self))"

text \<open>\<^verbatim>\<open>get_status\<close> reads the registries and assigns nothing.\<close>

definition get_status :: "'r SupervisorAgent \<Rightarrow> (string \<times> py_value) list \<times> 'r SupervisorAgent" where
  "get_status self =
     (let completed = int (length (filter (\<lambda>t. status t = ''completed'') (map snd (tasks self))));
          failed = int (length (filter (\<lambda>t. status t = ''failed'') (map snd (tasks self))))
      in ([(''supervisor'', PyStr (supervisor_name self)),
           (''total_workers'', PyInt (int (length (workers self)))),
           (''total_tasks'', PyInt (int (length (tasks self)))),
           (''completed_tasks'', PyInt completed),
           (''failed_tasks'', PyInt failed),
           (''success_rate'',
            PyFloat (real_of_int completed / real_of_int (max 1 (int (length (tasks self))))))],
          self))"


section \<open>Swarm engine (\<^verbatim>\<open>swarm_pattern.py\<close>)\<close>

record Pheromone =
  location :: string
  pheromone_value :: real
  age :: int

record SwarmAgent =
  agent_id :: string
  position :: string
  local_pheromones :: "(string \<times> real) list"
  visited_locations :: "string set"

definition SwarmAgent_init :: "string \<Rightarrow> string \<Rightarrow> SwarmAgent" where
  "SwarmAgent_init aid initial_position =
     \<lparr>agent_id = aid, position = initial_position, local_pheromones = [],
      visited_locations = {initial_position}\<rparr>"

definition sense_pheromones :: "SwarmAgent \<Rightarrow> (string \<times> real) list \<Rightarrow> SwarmAgent" where
  "sense_pheromones agent environment = agent\<lparr>local_pheromones := environment\<rparr>"

definition decide_next_location :: "SwarmAgent \<Rightarrow> string" where
  "decide_next_location agent =
     (case local_pheromones agent of
        [] \<Rightarrow> position agent
      | e # es \<Rightarrow> fst (max_loop snd e es))"

definition move :: "SwarmAgent \<Rightarrow> string \<Rightarrow> SwarmAgent" where
  "move agent new_position =
     agent\<lparr>position := new_position,
           visited_locations := insert new_position (visited_locations agent)\<rparr>"

record SwarmIntelligence =
  agents :: "SwarmAgent list"
  environment_pheromones :: "(string \<times> Pheromone) list"
  decay_rate :: real
  timestep :: int

text \<open>The default position \<^verbatim>\<open>"origin"\<close> of \<^verbatim>\<open>SwarmAgent.__init__\<close> is what the swarm uses.\<close>

definition SwarmIntelligence_init :: "int \<Rightarrow> real \<Rightarrow> SwarmIntelligence" where
  "SwarmIntelligence_init num_agents rate =
     \<lparr>agents = map (\<lambda>i. SwarmAgent_init (''agent_'' @ str_int i) ''origin'') [0..num_agents - 1],
      environment_pheromones = [],
      decay_rate = rate,
      timestep = 0\<rparr>"

definition deposit_pheromone :: "SwarmIntelligence \<Rightarrow> string \<Rightarrow> real \<Rightarrow> SwarmIntelligence" where
  "deposit_pheromone self loc v =
     (if map_of (environment_pheromones self) loc = None
      then self\<lparr>environment_pheromones :=
                  AList.update loc \<lparr>location = loc, pheromone_value = v, age = 0\<rparr>
                    (environment_pheromones self)\<rparr>
      else self\<lparr>environment_pheromones :=
                  AList.map_entry loc
                    (\<lambda>p. p\<lparr>pheromone_value := min 1 (pheromone_value p + v)\<rparr>)
                    (environment_pheromones self)\<rparr>)"

definition evaporate_pheromones :: "SwarmIntelligence \<Rightarrow> SwarmIntelligence" where
  "evaporate_pheromones self =
     self\<lparr>environment_pheromones :=
            map (\<lambda>(loc, p). (loc, p\<lparr>pheromone_value := pheromone_value p * (1 - decay_rate self),
                                    age := age p + 1\<rparr>))
                (environment_pheromones self)\<rparr>"

text \<open>
  The agent loop of \<^verbatim>\<open>update_agent_positions\<close>: every agent senses the snapshot taken
  before the loop, while its deposit goes to the live environment.
\<close>

fun update_agents ::
  "(string \<times> real) list \<Rightarrow> SwarmAgent list \<Rightarrow> SwarmIntelligence \<Rightarrow> SwarmAgent list \<times> SwarmIntelligence" where
  "update_agents pheromone_map [] self = ([], self)"
| "update_agents pheromone_map (agent # rest) self =
     (let agent = sense_pheromones agent pheromone_map;
          next_location = decide_next_location agent;
          agent = move agent next_location;
          self = deposit_pheromone self next_location 0.1;
          (rest, self) = update_agents pheromone_map rest self
      in (agent # rest, self))"

definition update_agent_positions :: "SwarmIntelligence \<Rightarrow> SwarmIntelligence" where
  "update_agent_positions self =
     (let pheromone_map = map (\<lambda>(loc, p). (loc, pheromone_value p)) (environment_pheromones self);
          (moved, self) = update_agents pheromone_map (agents self) self
      in self\<lparr>agents := moved\<rparr>)"

definition unique_positions :: "SwarmIntelligence \<Rightarrow> int" where
  "unique_positions self = int (card (set (map position (agents self))))"

text \<open>
  \<^verbatim>\<open>run_iteration\<close>: the state is changed before the statistics are computed, and the
  division by \<^verbatim>\<open>len(self.agents)\<close> raises for a swarm without agents.
\<close>

definition run_iteration :: "SwarmIntelligence \<Rightarrow> (py_error + (string \<times> py_value) list) \<times> SwarmIntelligence" where
  "run_iteration self =
     (let self = update_agent_positions self;
          self = evaporate_pheromones self;
          self = self\<lparr>timestep := timestep self + 1\<rparr>
      in if agents self = [] then (Inl ZeroDivisionError, self)
         else
           (Inr [(''timestep'', PyInt (timestep self)),
                 (''unique_locations'', PyInt (unique_positions self)),
                 (''convergence_ratio'',
                  PyFloat (1 - real_of_int (unique_positions self) / real (length (agents self)))),
                 (''avg_pheromone'',
                  PyFloat (sum_list (map (pheromone_value \<circ> snd) (environment_pheromones self))
                           / real_of_int (max 1 (int (length (environment_pheromones self))))))],
            self))"

definition is_converged :: "SwarmIntelligence \<Rightarrow> real \<Rightarrow> bool" where
  "is_converged self threshold =
     (let convergence =
            real_of_int (unique_positions self - 1)
            / real_of_int (max 1 (int (length (agents self)) - 1))
      in convergence \<le> 1 - threshold)"

text \<open>
  The \<^verbatim>\<open>for _ in range(max_iterations)\<close> loop of \<^verbatim>\<open>swarm_optimization\<close>, by the number
  of iterations left; \<^verbatim>\<open>is_converged()\<close> is called with its default threshold 0.8.
\<close>

fun optimization_loop :: "nat \<Rightarrow> SwarmIntelligence \<Rightarrow> py_error option \<times> SwarmIntelligence" where
  "optimization_loop 0 swarm = (None, swarm)"
| "optimization_loop (Suc n) swarm =
     (if is_converged swarm 0.8 then (None, swarm)
      else (case run_iteration swarm of
              (Inl e, swarm) \<Rightarrow> (Some e, swarm)
            | (Inr stats, swarm) \<Rightarrow> optimization_loop n swarm))"

definition swarm_optimization :: "SwarmIntelligence \<Rightarrow> int \<Rightarrow> (py_error + string) \<times> SwarmIntelligence" where
  "swarm_optimization swarm max_iterations =
     (case optimization_loop (nat max_iterations) swarm of
        (Some e, swarm) \<Rightarrow> (Inl e, swarm)
      | (None, swarm) \<Rightarrow>
          (case agents swarm of
             [] \<Rightarrow> (Inl IndexError, swarm)
           | a # _ \<Rightarrow> (Inr (position a), swarm)))"


section \<open>Predicates and concrete objects used in the statements\<close>


text \<open>
  A supervisor with three registered workers: \<^verbatim>\<open>w1\<close> and \<^verbatim>\<open>w2\<close> share the expertise
  \<^verbatim>\<open>"python"\<close>, \<^verbatim>\<open>w1\<close> has load 1, \<^verbatim>\<open>w2\<close> and \<^verbatim>\<open>w3\<close> have load 0.
\<close>

abbreviation example_supervisor :: "int SupervisorAgent" where
  "example_supervisor \<equiv>
     register_worker
       (register_worker
          (register_worker (SupervisorAgent_init ''sup'' 3 30)
             \<lparr>name = ''w1'', expertise = Some ''python'', completed_tasks = 0, failed_tasks = 1\<rparr>)
          \<lparr>name = ''w2'', expertise = Some ''python'', completed_tasks = 2, failed_tasks = 0\<rparr>)
       \<lparr>name = ''w3'', expertise = None, completed_tasks = 0, failed_tasks = 0\<rparr>"






text \<open>
  The options of a vote log in the order of their first vote: the key order of the two
  dictionaries that \<^verbatim>\<open>_weighted_consensus\<close> fills. With them, the summed confidence and the
  number of votes of one option.
\<close>

definition first_seen :: "'a list \<Rightarrow> 'a list" where
  "first_seen xs = rev (remdups (rev xs))"

definition options_in_order :: "Vote list \<Rightarrow> string list" where
  "options_in_order vs = first_seen (map option vs)"

definition summed_confidence :: "Vote list \<Rightarrow> string \<Rightarrow> real" where
  "summed_confidence vs opt = sum_list (map confidence (filter (\<lambda>v. option v = opt) vs))"

definition vote_count :: "Vote list \<Rightarrow> string \<Rightarrow> int" where
  "vote_count vs opt = int (length (filter (\<lambda>v. option v = opt) vs))"

text \<open>The three votes of \<^verbatim>\<open>test_vote_aggregation\<close>, under the weighted strategy.\<close>

abbreviation example_votes :: ConsensusEngine where
  "example_votes \<equiv>
     add_vote (add_vote (add_vote (ConsensusEngine_init WEIGHTED_CONFIDENCE)
                  ''Agent1'' ''OptionA'' 0.9 [])
                ''Agent2'' ''OptionA'' 0.8 [])
       ''Agent3'' ''OptionB'' 0.6 []"

text \<open>
  The range invariants: every vote of a consensus engine, every pheromone of a swarm and
  every argument of the rounds of a debate holds a value between 0 and 1.
\<close>

definition in_unit_interval :: "real \<Rightarrow> bool" where
  "in_unit_interval x = (0 \<le> x \<and> x \<le> 1)"

definition vote_confidences_in_range :: "ConsensusEngine \<Rightarrow> bool" where
  "vote_confidences_in_range self = list_all (\<lambda>v. in_unit_interval (confidence v)) (votes self)"

definition pheromones_in_range :: "SwarmIntelligence \<Rightarrow> bool" where
  "pheromones_in_range self =
     list_all (\<lambda>(loc, p). in_unit_interval (pheromone_value p)) (environment_pheromones self)"

definition debate_confidences_in_range :: "DebateOrchestrator \<Rightarrow> bool" where
  "debate_confidences_in_range self =
     list_all (\<lambda>r. (case proposer_argument r of None \<Rightarrow> True
                     | Some a \<Rightarrow> in_unit_interval (confidence_score a)) \<and>
                    (case critic_argument r of None \<Rightarrow> True
                     | Some a \<Rightarrow> in_unit_interval (confidence_score a)))
              (rounds self)"

text \<open>A swarm of two agents after one deposit of 0.8 at the location \<^verbatim>\<open>x\<close>.\<close>

abbreviation example_swarm :: SwarmIntelligence where
  "example_swarm \<equiv> deposit_pheromone (SwarmIntelligence_init 2 0.1) ''x'' 0.8"


section \<open>Properties of the consensus engine\<close>

text \<open>
  Claim C5. Under the \<^verbatim>\<open>unanimous\<close> strategy with a non-empty vote log,
  \<^verbatim>\<open>calculate_consensus\<close> reports \<^verbatim>\<open>unanimous\<close> true exactly when every recorded vote
  chose the option of the first vote, and then the consensus is that option; as soon as
  one vote differs, \<^verbatim>\<open>unanimous\<close> is false and the consensus is \<^verbatim>\<open>None\<close>. The engine
  is left as it was.
\<close>

theorem unanimous_consensus_iff_all_votes_agree:
  assumes "strategy self = UNANIMOUS" and "votes self \<noteq> []"
  shows "calculate_consensus self =
     (Inr [(''consensus'',
            if (\<forall>v \<in> set (votes self). option v = option (hd (votes self)))
            then PyStr (option (hd (votes self))) else PyNone),
           (''unanimous'',
            PyBool (\<forall>v \<in> set (votes self). option v = option (hd (votes self))))],
      self)"
  using assms
  by (cases "votes self")
     (simp_all add: calculate_consensus_def unanimous_consensus_def list_all_iff Let_def)

theorem unanimous_consensus_iff_all_votes_agree_witness:
  "strategy (add_vote (add_vote (ConsensusEngine_init UNANIMOUS) ''a1'' ''X'' 0.9 [])
                      ''a2'' ''X'' 0.4 []) = UNANIMOUS \<and>
   fst (calculate_consensus
          (add_vote (add_vote (ConsensusEngine_init UNANIMOUS) ''a1'' ''X'' 0.9 [])
                    ''a2'' ''X'' 0.4 []))
     = Inr [(''consensus'', PyStr ''X''), (''unanimous'', PyBool True)] \<and>
   fst (calculate_consensus
          (add_vote (add_vote (add_vote (ConsensusEngine_init UNANIMOUS) ''a1'' ''X'' 0.9 [])
                              ''a2'' ''X'' 0.4 [])
                    ''a3'' ''Y'' 0.7 []))
     = Inr [(''consensus'', PyNone), (''unanimous'', PyBool False)]"
  using
    unanimous_consensus_iff_all_votes_agree
      [of "add_vote (add_vote (ConsensusEngine_init UNANIMOUS) ''a1'' ''X'' 0.9 [])
                    ''a2'' ''X'' 0.4 []"]
    unanimous_consensus_iff_all_votes_agree
      [of "add_vote (add_vote (add_vote (ConsensusEngine_init UNANIMOUS) ''a1'' ''X'' 0.9 [])
                              ''a2'' ''X'' 0.4 [])
                    ''a3'' ''Y'' 0.7 []"]
  by (simp add: add_vote_def ConsensusEngine_init_def)


lemma first_seen_snoc:
  "first_seen (xs @ [x]) = (if x \<in> set xs then first_seen xs else first_seen xs @ [x])"
  by (simp add: first_seen_def)

lemma first_seen_set [simp]: "set (first_seen xs) = set xs"
  by (simp add: first_seen_def)

lemma first_seen_distinct [simp]: "distinct (first_seen xs)"
  by (simp add: first_seen_def)

lemma first_seen_Nil [simp]: "first_seen [] = []"
  by (simp add: first_seen_def)

lemma map_entry_tabulated:
  "distinct ks \<Longrightarrow>
   AList.map_entry k f (map (\<lambda>x. (x, g x)) ks) = map (\<lambda>x. (x, if x = k then f (g x) else g x)) ks"
  by (induction ks) auto

lemma update_tabulated_fresh:
  "k \<notin> set ks \<Longrightarrow> AList.update k v (map (\<lambda>x. (x, g x)) ks) = map (\<lambda>x. (x, g x)) ks @ [(k, v)]"
  by (induction ks) auto

lemma map_of_tabulated: "map_of (map (\<lambda>x. (x, g x)) ks) k = (if k \<in> set ks then Some (g k) else None)"
  by (induction ks) auto

lemma summed_confidence_snoc:
  "summed_confidence (vs @ [v]) opt
     = (if option v = opt then summed_confidence vs opt + confidence v else summed_confidence vs opt)"
  by (simp add: summed_confidence_def)

lemma vote_count_snoc:
  "vote_count (vs @ [v]) opt = (if option v = opt then vote_count vs opt + 1 else vote_count vs opt)"
  by (simp add: vote_count_def)

lemma summed_confidence_unseen: "opt \<notin> option ` set vs \<Longrightarrow> summed_confidence vs opt = 0"
  by (induction vs) (auto simp: summed_confidence_def)

lemma vote_count_unseen: "opt \<notin> option ` set vs \<Longrightarrow> vote_count vs opt = 0"
  by (induction vs) (auto simp: vote_count_def)

lemma vote_count_seen: "opt \<in> option ` set vs \<Longrightarrow> vote_count vs opt \<noteq> 0"
  by (auto simp: vote_count_def filter_empty_conv)

lemma weighted_tally_foldl:
  "foldl weighted_tally ([], []) vs =
     (map (\<lambda>opt. (opt, summed_confidence vs opt)) (options_in_order vs),
      map (\<lambda>opt. (opt, vote_count vs opt)) (options_in_order vs))"
proof (induction vs rule: rev_induct)
  case Nil
  show ?case by (simp add: options_in_order_def)
next
  case (snoc v vs)
  let ?K = "options_in_order vs"
  let ?o = "option v"
  show ?case
  proof (cases "?o \<in> option ` set vs")
    case True
    then have K: "options_in_order (vs @ [v]) = ?K"
      by (simp add: options_in_order_def first_seen_snoc)
    have inK: "?o \<in> set ?K" using True by (simp add: options_in_order_def)
    have d: "distinct ?K" by (simp add: options_in_order_def)
    have "weighted_tally (foldl weighted_tally ([], []) vs) v =
       (AList.map_entry ?o (\<lambda>s. s + confidence v) (map (\<lambda>opt. (opt, summed_confidence vs opt)) ?K),
        AList.map_entry ?o (\<lambda>c. c + 1) (map (\<lambda>opt. (opt, vote_count vs opt)) ?K))"
      unfolding snoc.IH using inK by (simp add: weighted_tally_def map_of_tabulated)
    then show ?thesis
      unfolding foldl_append foldl_Cons foldl_Nil K map_entry_tabulated[OF d]
      by (simp add: summed_confidence_snoc vote_count_snoc cong: if_cong)
  next
    case False
    then have K: "options_in_order (vs @ [v]) = ?K @ [?o]"
      by (simp add: options_in_order_def first_seen_snoc)
    have notK: "?o \<notin> set ?K" using False by (simp add: options_in_order_def)
    have d: "distinct (?K @ [?o])" using notK by (simp add: options_in_order_def)
    have s0: "summed_confidence vs ?o = 0" using False by (rule summed_confidence_unseen)
    have c0: "vote_count vs ?o = 0" using False by (rule vote_count_unseen)
    have ext1: "map (\<lambda>opt. (opt, summed_confidence vs opt)) ?K @ [(?o, 0)]
          = map (\<lambda>opt. (opt, summed_confidence vs opt)) (?K @ [?o])"
      by (simp add: s0)
    have ext2: "map (\<lambda>opt. (opt, vote_count vs opt)) ?K @ [(?o, 0)]
          = map (\<lambda>opt. (opt, vote_count vs opt)) (?K @ [?o])"
      by (simp add: c0)
    have "weighted_tally (foldl weighted_tally ([], []) vs) v =
       (AList.map_entry ?o (\<lambda>s. s + confidence v) (map (\<lambda>opt. (opt, summed_confidence vs opt)) (?K @ [?o])),
        AList.map_entry ?o (\<lambda>c. c + 1) (map (\<lambda>opt. (opt, vote_count vs opt)) (?K @ [?o])))"
      unfolding snoc.IH using notK
      by (simp add: weighted_tally_def map_of_tabulated update_tabulated_fresh s0 c0)
    then show ?thesis
      unfolding foldl_append foldl_Cons foldl_Nil K map_entry_tabulated[OF d]
      by (simp add: summed_confidence_snoc vote_count_snoc cong: if_cong)
  qed
qed

lemma max_loop_first_maximum:
  "\<exists>pre post. b # ys = pre @ max_loop key b ys # post \<and>
     (\<forall>y \<in> set pre. key y < key (max_loop key b ys)) \<and>
     (\<forall>y \<in> set post. key y \<le> key (max_loop key b ys))"
proof (induction ys arbitrary: b)
  case Nil
  have "[b] = [] @ b # []" by simp
  then show ?case by (intro exI[of _ "[]"]) simp
next
  case (Cons y ys)
  define b' where "b' = (if key b < key y then y else b)"
  define m where "m = max_loop key b' ys"
  from Cons.IH[of b'] obtain pre post where
    dec: "b' # ys = pre @ m # post" and
    lt: "\<forall>z \<in> set pre. key z < key m" and
    le: "\<forall>z \<in> set post. key z \<le> key m"
    unfolding m_def by blast
  have m: "max_loop key b (y # ys) = m"
    by (simp add: m_def b'_def)
  have mb: "key b' \<le> key m"
  proof (cases pre)
    case Nil
    with dec show ?thesis by simp
  next
    case (Cons p ps)
    with dec have "p = b'" by simp
    with lt Cons show ?thesis by auto
  qed
  show ?case
  proof (cases "key b < key y")
    case True
    then have b': "b' = y" by (simp add: b'_def)
    have "b # y # ys = (b # pre) @ m # post" using dec b' by simp
    moreover have "\<forall>z \<in> set (b # pre). key z < key m" using True mb lt b' by auto
    ultimately show ?thesis unfolding m using le by blast
  next
    case False
    then have b': "b' = b" by (simp add: b'_def)
    show ?thesis
    proof (cases pre)
      case Nil
      then have mb': "m = b" and post: "post = ys" using dec b' by simp_all
      have "b # y # ys = [] @ m # (y # post)" using mb' post by simp
      moreover have "\<forall>z \<in> set (y # post). key z \<le> key m"
        using le False mb' by auto
      moreover have "\<forall>z \<in> set ([]::'a list). key z < key m" by simp
      ultimately show ?thesis unfolding m by blast
    next
      case (Cons p ps)
      then have p: "p = b" and ys: "ys = ps @ m # post" using dec b' by simp_all
      have "key b < key m" using lt Cons p by auto
      then have "\<forall>z \<in> set (b # y # ps). key z < key m"
        using lt Cons False by auto
      moreover have "b # y # ys = (b # y # ps) @ m # post" using ys by simp
      ultimately show ?thesis unfolding m using le by blast
    qed
  qed
qed

lemma vote_breakdown_tabulated:
  assumes "\<forall>k \<in> set ks. map_of counts k = Some (h k) \<and> h k \<noteq> 0"
  shows "vote_breakdown (map (\<lambda>k. (k, g k)) ks) counts
           = Inr (map (\<lambda>k. (k, PyFloat (g k / real_of_int (h k)))) ks)"
  using assms by (induction ks) auto

lemma options_in_order_nonempty: "vs \<noteq> [] \<Longrightarrow> options_in_order vs \<noteq> []"
proof -
  assume "vs \<noteq> []"
  then have "set (options_in_order vs) \<noteq> {}"
    by (simp add: options_in_order_def)
  then show ?thesis by auto
qed

lemma tabulated_decomposition:
  assumes "map (\<lambda>k. (k, g k)) ks = pre @ m # post"
  shows "ks = map fst pre @ fst m # map fst post \<and> snd m = g (fst m) \<and>
         (\<forall>e \<in> set pre. snd e = g (fst e)) \<and> (\<forall>e \<in> set post. snd e = g (fst e))"
proof -
  have ks: "ks = map fst (map (\<lambda>k. (k, g k)) ks)"
    by (simp add: comp_def)
  have all: "\<forall>e \<in> set (map (\<lambda>k. (k, g k)) ks). snd e = g (fst e)"
    by auto
  show ?thesis
    using ks all unfolding assms by auto
qed

text \<open>
  Under the \<^verbatim>\<open>weighted_confidence\<close> strategy, with at least one vote and a total summed
  confidence other than zero, \<^verbatim>\<open>calculate_consensus\<close> sums the confidence per option and
  returns as \<^verbatim>\<open>consensus\<close> an option \<open>best\<close> such that every option first voted before it
  has a strictly smaller sum and every option first voted after it a sum at most as great:
  the first option of greatest sum in iteration order. The reported \<^verbatim>\<open>confidence\<close> is the
  sum of \<open>best\<close> divided by the total of the sums over all options, and \<^verbatim>\<open>vote_breakdown\<close>
  gives for every option its sum divided by its number of votes. For the votes
  (A, 0.9), (A, 0.8), (B, 0.6) the winner is A with confidence (0.9 + 0.8) / (0.9 + 0.8 + 0.6).
\<close>

lemma weighted_consensus_nonzero_total:
  assumes "strategy self = WEIGHTED_CONFIDENCE"
    and "votes self \<noteq> []"
    and "sum_list (map (summed_confidence (votes self)) (options_in_order (votes self))) \<noteq> 0"
  shows "\<exists>pre best post.
     options_in_order (votes self) = pre @ best # post \<and>
     (\<forall>opt \<in> set pre. summed_confidence (votes self) opt < summed_confidence (votes self) best) \<and>
     (\<forall>opt \<in> set post. summed_confidence (votes self) opt \<le> summed_confidence (votes self) best) \<and>
     calculate_consensus self =
       (Inr [(''consensus'', PyStr best),
             (''confidence'',
              PyFloat (summed_confidence (votes self) best
                       / sum_list (map (summed_confidence (votes self)) (options_in_order (votes self))))),
             (''vote_breakdown'',
              PyDict (map (\<lambda>opt. (opt, PyFloat (summed_confidence (votes self) opt
                                                 / real_of_int (vote_count (votes self) opt))))
                          (options_in_order (votes self))))],
        self)"
proof -
  let ?vs = "votes self"
  let ?K = "options_in_order ?vs"
  let ?S = "map (\<lambda>opt. (opt, summed_confidence ?vs opt)) ?K"
  let ?C = "map (\<lambda>opt. (opt, vote_count ?vs opt)) ?K"
  have tally: "foldl weighted_tally ([], []) ?vs = (?S, ?C)"
    by (rule weighted_tally_foldl)
  obtain e es where S: "?S = e # es"
    using options_in_order_nonempty[OF assms(2)] by (cases ?S) auto
  define m where "m = max_loop snd e es"
  from max_loop_first_maximum[of e es snd] obtain pre' post' where
    dec: "e # es = pre' @ m # post'" and
    lt: "\<forall>y \<in> set pre'. snd y < snd m" and
    le: "\<forall>y \<in> set post'. snd y \<le> snd m"
    unfolding m_def by blast
  from tabulated_decomposition[of "summed_confidence ?vs" ?K pre' m post'] dec S have
    K: "?K = map fst pre' @ fst m # map fst post'" and
    sm: "snd m = summed_confidence ?vs (fst m)" and
    spre: "\<forall>e \<in> set pre'. snd e = summed_confidence ?vs (fst e)" and
    spost: "\<forall>e \<in> set post'. snd e = summed_confidence ?vs (fst e)"
    by auto
  have total: "sum_list (map snd ?S) = sum_list (map (summed_confidence ?vs) ?K)"
    by (simp add: comp_def)
  have counts: "\<forall>k \<in> set ?K. map_of ?C k = Some (vote_count ?vs k) \<and> vote_count ?vs k \<noteq> 0"
    by (auto simp: map_of_tabulated options_in_order_def intro!: vote_count_seen)
  have bd: "vote_breakdown ?S ?C
              = Inr (map (\<lambda>opt. (opt, PyFloat (summed_confidence ?vs opt
                                                / real_of_int (vote_count ?vs opt)))) ?K)"
    using counts by (rule vote_breakdown_tabulated)
  have wc: "weighted_consensus self =
       Inr [(''consensus'', PyStr (fst m)),
            (''confidence'',
             PyFloat (summed_confidence ?vs (fst m) / sum_list (map (summed_confidence ?vs) ?K))),
            (''vote_breakdown'',
             PyDict (map (\<lambda>opt. (opt, PyFloat (summed_confidence ?vs opt
                                                / real_of_int (vote_count ?vs opt)))) ?K))]"
    unfolding weighted_consensus_def tally
    using assms(3) S bd total
    by (simp add: m_def[symmetric] sm del: map_map)
  have cc: "calculate_consensus self = (weighted_consensus self, self)"
    using assms(1,2) by (simp add: calculate_consensus_def)
  have before: "\<forall>opt \<in> set (map fst pre'). summed_confidence ?vs opt < summed_confidence ?vs (fst m)"
    using lt spre sm by auto
  have after: "\<forall>opt \<in> set (map fst post'). summed_confidence ?vs opt \<le> summed_confidence ?vs (fst m)"
    using le spost sm by auto
  show ?thesis
  proof (intro exI conjI)
    show "options_in_order ?vs = map fst pre' @ fst m # map fst post'" by (rule K)
    show "\<forall>opt \<in> set (map fst pre'). summed_confidence ?vs opt < summed_confidence ?vs (fst m)"
      by (rule before)
    show "\<forall>opt \<in> set (map fst post'). summed_confidence ?vs opt \<le> summed_confidence ?vs (fst m)"
      by (rule after)
    show "calculate_consensus self =
       (Inr [(''consensus'', PyStr (fst m)),
             (''confidence'',
              PyFloat (summed_confidence ?vs (fst m) / sum_list (map (summed_confidence ?vs) ?K))),
             (''vote_breakdown'',
              PyDict (map (\<lambda>opt. (opt, PyFloat (summed_confidence ?vs opt
                                                 / real_of_int (vote_count ?vs opt)))) ?K))],
        self)"
      unfolding cc wc by (rule refl)
  qed
qed

lemma weighted_consensus_example_votes:
  "strategy example_votes = WEIGHTED_CONFIDENCE \<and>
   votes example_votes \<noteq> [] \<and>
   sum_list (map (summed_confidence (votes example_votes)) (options_in_order (votes example_votes)))
     = 23 / 10 \<and>
   fst (calculate_consensus example_votes) =
     Inr [(''consensus'', PyStr ''OptionA''),
          (''confidence'', PyFloat ((0.9 + 0.8) / (0.9 + 0.8 + 0.6))),
          (''vote_breakdown'', PyDict [(''OptionA'', PyFloat 0.85), (''OptionB'', PyFloat 0.6)])]"
  using weighted_consensus_nonzero_total[of example_votes]
  by (simp add: add_vote_def ConsensusEngine_init_def calculate_consensus_def
        weighted_consensus_def weighted_tally_def options_in_order_def first_seen_def
        summed_confidence_def vote_count_def)

text \<open>
  With at least one vote and a total summed confidence of zero, the division by
  \<^verbatim>\<open>total_confidence\<close> raises \<^verbatim>\<open>ZeroDivisionError\<close>, whatever the options are.
\<close>

lemma weighted_consensus_zero_total:
  assumes "strategy self = WEIGHTED_CONFIDENCE"
    and "votes self \<noteq> []"
    and "sum_list (map (summed_confidence (votes self)) (options_in_order (votes self))) = 0"
  shows "calculate_consensus self = (Inl ZeroDivisionError, self)"
proof -
  let ?vs = "votes self"
  let ?K = "options_in_order ?vs"
  let ?S = "map (\<lambda>opt. (opt, summed_confidence ?vs opt)) ?K"
  let ?C = "map (\<lambda>opt. (opt, vote_count ?vs opt)) ?K"
  have tally: "foldl weighted_tally ([], []) ?vs = (?S, ?C)"
    by (rule weighted_tally_foldl)
  obtain e es where S: "?S = e # es"
    using options_in_order_nonempty[OF assms(2)] by (cases ?S) auto
  have total: "sum_list (map snd ?S) = 0"
    using assms(3) by (simp add: comp_def)
  have "weighted_consensus self = Inl ZeroDivisionError"
    unfolding weighted_consensus_def tally
    using S total by (simp del: map_map)
  then show ?thesis
    using assms(1,2) by (simp add: calculate_consensus_def)
qed

text \<open>
  Claim C4. Under the \<^verbatim>\<open>weighted_confidence\<close> strategy \<^verbatim>\<open>calculate_consensus\<close> is to
  report the option of highest summed confidence and, as \<^verbatim>\<open>confidence\<close>, its sum divided by
  the total summed confidence. A vote whose confidence is 0, or negative and clamped to 0 by
  \<^verbatim>\<open>add_vote\<close>, is a vote like any other; when every recorded vote is such a vote the total
  is zero and \<^verbatim>\<open>calculate_consensus\<close> reports nothing: the unguarded division raises
  \<^verbatim>\<open>ZeroDivisionError\<close>. This happens with the single vote (A, 0) and with the two votes
  (A, -0.5), (B, 0), while the same votes get a result under the \<^verbatim>\<open>simple_majority\<close>
  strategy.
\<close>

theorem weighted_consensus_zero_total_raises:
  "fst (calculate_consensus
          (add_vote (ConsensusEngine_init WEIGHTED_CONFIDENCE) ''Agent1'' ''OptionA'' 0 []))
     = Inl ZeroDivisionError \<and>
   confidence (last (votes
          (add_vote (ConsensusEngine_init WEIGHTED_CONFIDENCE) ''Agent1'' ''OptionA'' (- 0.5) [])))
     = 0 \<and>
   fst (calculate_consensus
          (add_vote (add_vote (ConsensusEngine_init WEIGHTED_CONFIDENCE)
                       ''Agent1'' ''OptionA'' (- 0.5) [])
             ''Agent2'' ''OptionB'' 0 []))
     = Inl ZeroDivisionError \<and>
   fst (calculate_consensus
          (add_vote (ConsensusEngine_init SIMPLE_MAJORITY) ''Agent1'' ''OptionA'' 0 []))
     = Inr [(''consensus'', PyStr ''OptionA''), (''votes_for'', PyInt 1), (''total_votes'', PyInt 1)]"
  by (simp add: add_vote_def ConsensusEngine_init_def calculate_consensus_def
        weighted_consensus_def weighted_tally_def majority_consensus_def majority_tally_def)


section \<open>Properties of the debate engine\<close>

lemma make_round_ignores_rounds [simp]:
  "make_round (s\<lparr>rounds := rs\<rparr>) p i = make_round s p i"
  by (simp add: make_round_def calculate_consensus_debate_def cong: if_cong)

lemma foldl_debate_round:
  "foldl (debate_round p) s xs = s\<lparr>rounds := rounds s @ map (make_round s p) xs\<rparr>"
proof (induction xs arbitrary: s)
  case Nil
  show ?case by simp
next
  case (Cons x xs)
  show ?case
    by (simp add: Cons.IH) (simp add: debate_round_def)
qed

lemma run_debate_rounds:
  "rounds (snd (run_debate self topic p)) = map (make_round self p) [1..num_rounds self]"
  by (simp add: run_debate_def Let_def foldl_debate_round)

lemma last_upto_from_one: "1 \<le> (n::int) \<Longrightarrow> last [1..n] = n"
  by (simp add: upto_rec2)

lemma make_round_fields [simp]:
  "round_number (make_round s p i) = i"
  "proposer_argument (make_round s p i) \<noteq> None"
  "critic_argument (make_round s p i) \<noteq> None"
  "confidence_score (the (proposer_argument (make_round s p i))) = 0.8 + real_of_int i * 0.05"
  "confidence_score (the (critic_argument (make_round s p i))) = 0.7 + real_of_int i * 0.04"
  by (simp_all add: make_round_def Let_def)

lemma generate_consensus_of_rounds:
  assumes "rounds s = map (make_round self p) xs" and "xs \<noteq> []"
  shows "generate_consensus s =
     Inr [(''topic'', PyStr ''Debate topic''),
          (''total_rounds'', PyInt (int (length xs))),
          (''avg_consensus_score'',
           PyFloat (sum_list (map (\<lambda>i. consensus_score (make_round self p i)) xs)
                    / real (length xs))),
          (''proposer_final_confidence'', PyFloat (0.8 + real_of_int (last xs) * 0.05)),
          (''critic_final_confidence'', PyFloat (0.7 + real_of_int (last xs) * 0.04)),
          (''consensus_reached'',
           PyBool (sum_list (map (\<lambda>i. consensus_score (make_round self p i)) xs)
                    / real (length xs) > 0.75)),
          (''rounds'',
           PyList (map (\<lambda>i. PyDict [(''round'', PyInt i),
                                    (''consensus'', PyFloat (consensus_score (make_round self p i)))])
                       xs))]"
proof -
  obtain pa where pa: "proposer_argument (make_round self p (last xs)) = Some pa"
    using make_round_fields(2)[of self p "last xs"] by blast
  obtain ca where ca: "critic_argument (make_round self p (last xs)) = Some ca"
    using make_round_fields(3)[of self p "last xs"] by blast
  have cpa: "confidence_score pa = 0.8 + real_of_int (last xs) * 0.05"
    using make_round_fields(4)[of self p "last xs"] by (simp add: pa)
  have cca: "confidence_score ca = 0.7 + real_of_int (last xs) * 0.04"
    using make_round_fields(5)[of self p "last xs"] by (simp add: ca)
  have lst: "last (rounds s) = make_round self p (last xs)"
    using assms by (simp add: last_map)
  have ne: "rounds s \<noteq> []"
    using assms by simp
  have sm: "map consensus_score (rounds s) = map (\<lambda>i. consensus_score (make_round self p i)) xs"
    using assms by (simp add: comp_def)
  have rl: "map (\<lambda>r. PyDict [(''round'', PyInt (round_number r)),
                              (''consensus'', PyFloat (consensus_score r))]) (rounds s)
          = map (\<lambda>i. PyDict [(''round'', PyInt i),
                              (''consensus'', PyFloat (consensus_score (make_round self p i)))]) xs"
    using assms by (simp add: comp_def)
  have ln: "length (rounds s) = length xs"
    using assms by simp
  show ?thesis
    unfolding generate_consensus_def Let_def lst sm rl ln
    using ne by (simp add: pa ca cpa cca)
qed

text \<open>
  Claim C7. For \<^verbatim>\<open>num_rounds = R\<close> with \<open>R \<ge> 1\<close>, \<^verbatim>\<open>run_debate\<close> returns a result (it
  does not raise) whose \<^verbatim>\<open>rounds\<close> list has one entry per round number \<open>1, ..., R\<close>, in
  that order, each with the consensus score of its round; \<^verbatim>\<open>avg_consensus_score\<close> is the
  sum of these \<open>R\<close> scores divided by \<open>R\<close>, and \<^verbatim>\<open>consensus_reached\<close> is true exactly
  when that mean is greater than 0.75.
\<close>

theorem run_debate_round_entries_and_mean:
  assumes "1 \<le> num_rounds self"
  shows "fst (run_debate self topic p) =
     Inr [(''topic'', PyStr ''Debate topic''),
          (''total_rounds'', PyInt (num_rounds self)),
          (''avg_consensus_score'',
           PyFloat (sum_list (map (\<lambda>i. consensus_score (make_round self p i)) [1..num_rounds self])
                    / real_of_int (num_rounds self))),
          (''proposer_final_confidence'', PyFloat (0.8 + real_of_int (num_rounds self) * 0.05)),
          (''critic_final_confidence'', PyFloat (0.7 + real_of_int (num_rounds self) * 0.04)),
          (''consensus_reached'',
           PyBool (sum_list (map (\<lambda>i. consensus_score (make_round self p i)) [1..num_rounds self])
                    / real_of_int (num_rounds self) > 0.75)),
          (''rounds'',
           PyList (map (\<lambda>i. PyDict [(''round'', PyInt i),
                                    (''consensus'', PyFloat (consensus_score (make_round self p i)))])
                       [1..num_rounds self]))]"
proof -
  let ?R = "num_rounds self"
  have rs: "rounds (snd (run_debate self topic p)) = map (make_round self p) [1..?R]"
    by (rule run_debate_rounds)
  have ne: "[1..?R] \<noteq> []"
    using assms by simp
  have len: "int (length [1..?R]) = ?R" "real (length [1..?R]) = real_of_int ?R"
    using assms by simp_all
  have lst: "last [1..?R] = ?R"
    using assms by (rule last_upto_from_one)
  have run: "fst (run_debate self topic p) = generate_consensus (snd (run_debate self topic p))"
    by (simp add: run_debate_def Let_def)
  show ?thesis
    unfolding run generate_consensus_of_rounds[OF rs ne] len lst ..
qed

theorem run_debate_round_entries_and_mean_witness:
  "1 \<le> num_rounds (DebateOrchestrator_init 3 ''entropy_reduction'') \<and>
   fst (run_debate (DebateOrchestrator_init 3 ''entropy_reduction'') ''Test topic'' ''Test position'') =
     Inr [(''topic'', PyStr ''Debate topic''),
          (''total_rounds'', PyInt 3),
          (''avg_consensus_score'', PyFloat 0.78),
          (''proposer_final_confidence'', PyFloat 0.95),
          (''critic_final_confidence'', PyFloat 0.82),
          (''consensus_reached'', PyBool True),
          (''rounds'',
           PyList [PyDict [(''round'', PyInt 1), (''consensus'', PyFloat 0.74)],
                   PyDict [(''round'', PyInt 2), (''consensus'', PyFloat 0.78)],
                   PyDict [(''round'', PyInt 3), (''consensus'', PyFloat 0.82)]])]"
  using run_debate_round_entries_and_mean
          [of "DebateOrchestrator_init 3 ''entropy_reduction''" "''Test topic''" "''Test position''"]
  by (simp add: DebateOrchestrator_init_def upto_rec1 make_round_def
                calculate_consensus_debate_def Let_def)


section \<open>Properties of the pipeline orchestrator\<close>

text \<open>
  Claim C6, as the code has it. \<^verbatim>\<open>execute\<close> on a pipeline without stages returns the
  original input payload, not \<^verbatim>\<open>None\<close>: the loop body never runs and
  \<^verbatim>\<open>return current_data\<close> hands back \<^verbatim>\<open>initial_data\<close>. It raises nothing and leaves the
  orchestrator, its trace included, unchanged.
\<close>

theorem empty_pipeline_returns_input:
  assumes "stages self = []"
  shows "execute self initial_data skip_stages = (Some initial_data, self)"
  using assms by (simp add: execute_def)

theorem empty_pipeline_returns_input_witness:
  "stages (PipelineOrchestrator_init ''Pipeline'') = [] \<and>
   execute (PipelineOrchestrator_init ''Pipeline'') [''x'' \<mapsto> (1::int)] (Some [''a''])
     = (Some [''x'' \<mapsto> 1], PipelineOrchestrator_init ''Pipeline'')"
  using empty_pipeline_returns_input
          [of "PipelineOrchestrator_init ''Pipeline''" "[''x'' \<mapsto> (1::int)]" "Some [''a'']"]
  by (simp add: PipelineOrchestrator_init_def)

text \<open>
  The claim as it was stated, that an empty stage list yields \<^verbatim>\<open>None\<close>, fails on a
  fresh orchestrator and the payload \<^verbatim>\<open>{"x": 1}\<close>.
\<close>

theorem empty_pipeline_returns_none_counterexample:
  "fst (execute (PipelineOrchestrator_init ''Pipeline'') [''x'' \<mapsto> (1::int)] None) \<noteq> None"
  by (simp add: execute_def PipelineOrchestrator_init_def)








section \<open>Properties of the supervisor\<close>

text \<open>
  Claim C9. \<^verbatim>\<open>get_status()\<close> on a supervisor and \<^verbatim>\<open>calculate_consensus()\<close> on a
  consensus engine, each called twice in a row, give the same result both times (the same
  dictionary, or the same exception), and the object after either call is the object
  before the first. This holds in every state, reachable or not.
\<close>

theorem get_status_and_calculate_consensus_idempotent:
  "(let (r1, s1) = get_status s; (r2, s2) = get_status s1
    in r1 = r2 \<and> s1 = s \<and> s2 = s) \<and>
   (let (q1, e1) = calculate_consensus e; (q2, e2) = calculate_consensus e1
    in q1 = q2 \<and> e1 = e \<and> e2 = e)"
  by (simp add: get_status_def calculate_consensus_def Let_def split: VotingStrategy.split)

theorem get_status_and_calculate_consensus_idempotent_witness:
  "(let (r1, s1) = get_status (register_worker (SupervisorAgent_init ''sup'' 3 30 :: int SupervisorAgent)
                                 (WorkerAgent_init ''w1'' None));
        (r2, s2) = get_status s1
    in r1 = r2 \<and> s1 = register_worker (SupervisorAgent_init ''sup'' 3 30) (WorkerAgent_init ''w1'' None)
       \<and> s2 = register_worker (SupervisorAgent_init ''sup'' 3 30) (WorkerAgent_init ''w1'' None)) \<and>
   (let (q1, e1) = calculate_consensus (add_vote (ConsensusEngine_init WEIGHTED_CONFIDENCE) ''a'' ''A'' 0.9 []);
        (q2, e2) = calculate_consensus e1
    in q1 = q2 \<and> e1 = add_vote (ConsensusEngine_init WEIGHTED_CONFIDENCE) ''a'' ''A'' 0.9 []
       \<and> e2 = add_vote (ConsensusEngine_init WEIGHTED_CONFIDENCE) ''a'' ''A'' 0.9 [])"
  using get_status_and_calculate_consensus_idempotent
          [of "register_worker (SupervisorAgent_init ''sup'' 3 30 :: int SupervisorAgent)
                 (WorkerAgent_init ''w1'' None)"
              "add_vote (ConsensusEngine_init WEIGHTED_CONFIDENCE) ''a'' ''A'' 0.9 []"]
  by simp


lemma min_loop_first_minimum:
  "\<exists>pre post. b # ys = pre @ min_loop key b ys # post \<and>
     (\<forall>y \<in> set pre. key (min_loop key b ys) < key y) \<and>
     (\<forall>y \<in> set post. key (min_loop key b ys) \<le> key y)"
proof (induction ys arbitrary: b)
  case Nil
  have "[b] = [] @ b # []" by simp
  then show ?case by (intro exI[of _ "[]"]) simp
next
  case (Cons y ys)
  define b' where "b' = (if key y < key b then y else b)"
  define m where "m = min_loop key b' ys"
  from Cons.IH[of b'] obtain pre post where
    dec: "b' # ys = pre @ m # post" and
    lt: "\<forall>z \<in> set pre. key m < key z" and
    le: "\<forall>z \<in> set post. key m \<le> key z"
    unfolding m_def by blast
  have m: "min_loop key b (y # ys) = m"
    by (simp add: m_def b'_def)
  have mb: "key m \<le> key b'"
  proof (cases pre)
    case Nil
    with dec show ?thesis by simp
  next
    case (Cons p ps)
    with dec have "p = b'" by simp
    with lt Cons show ?thesis by auto
  qed
  show ?case
  proof (cases "key y < key b")
    case True
    then have b': "b' = y" by (simp add: b'_def)
    have "b # y # ys = (b # pre) @ m # post" using dec b' by simp
    moreover have "\<forall>z \<in> set (b # pre). key m < key z" using True mb lt b' by auto
    ultimately show ?thesis unfolding m using le by blast
  next
    case False
    then have b': "b' = b" by (simp add: b'_def)
    show ?thesis
    proof (cases pre)
      case Nil
      then have mb': "m = b" and post: "post = ys" using dec b' by simp_all
      have "b # y # ys = [] @ m # (y # post)" using mb' post by simp
      moreover have "\<forall>z \<in> set (y # post). key m \<le> key z"
        using le False mb' by auto
      moreover have "\<forall>z \<in> set ([]::'a list). key m < key z" by simp
      ultimately show ?thesis unfolding m by blast
    next
      case (Cons p ps)
      then have p: "p = b" and ys: "ys = ps @ m # post" using dec b' by simp_all
      have "key m < key b" using lt Cons p by auto
      then have "\<forall>z \<in> set (b # y # ps). key m < key z"
        using lt Cons False by auto
      moreover have "b # y # ys = (b # y # ps) @ m # post" using ys by simp
      ultimately show ?thesis unfolding m using le by blast
    qed
  qed
qed

text \<open>
  Claim C8. The candidates of \<^verbatim>\<open>select_worker\<close> are all registered workers, in
  registration order, when no expertise is given (\<^verbatim>\<open>None\<close>, or the empty string, which
  \<^verbatim>\<open>if expertise:\<close> treats alike), and otherwise those whose expertise equals the tag.
  With no candidate the result is \<^verbatim>\<open>None\<close>; otherwise it is a candidate \<open>w\<close> such that
  every candidate before it has a strictly greater load and every candidate after it a
  load at least as great: the first candidate of minimum load. In particular a tag that no
  registered worker has yields \<^verbatim>\<open>None\<close>. The load is
  \<^verbatim>\<open>failed_tasks / max(1, completed_tasks + failed_tasks)\<close>.
\<close>

theorem select_worker_first_minimum_load:
  "(candidates_for self e = [] \<longrightarrow> select_worker self e = None) \<and>
   (candidates_for self e \<noteq> [] \<longrightarrow>
      (\<exists>pre w post. select_worker self e = Some w \<and>
         candidates_for self e = pre @ w # post \<and>
         (\<forall>c \<in> set pre. get_load w < get_load c) \<and>
         (\<forall>c \<in> set post. get_load w \<le> get_load c))) \<and>
   candidates_for self e =
     (if e = None \<or> e = Some [] then map snd (workers self)
      else filter (\<lambda>w. expertise w = e) (map snd (workers self))) \<and>
   (\<forall>t. e = Some t \<and> t \<noteq> [] \<and> (\<forall>w \<in> set (map snd (workers self)). expertise w \<noteq> Some t)
        \<longrightarrow> select_worker self e = None) \<and>
   (\<forall>w. get_load w =
      real_of_int (failed_tasks w) / real_of_int (max 1 (completed_tasks w + failed_tasks w)))"
proof -
  have cands: "candidates_for self e =
     (if e = None \<or> e = Some [] then map snd (workers self)
      else filter (\<lambda>w. expertise w = e) (map snd (workers self)))"
    by (auto simp: candidates_for_def truthy_def split: option.splits)
  have empty: "candidates_for self e = [] \<longrightarrow> select_worker self e = None"
    by (simp add: select_worker_def)
  have nonempty: "candidates_for self e \<noteq> [] \<longrightarrow>
      (\<exists>pre w post. select_worker self e = Some w \<and>
         candidates_for self e = pre @ w # post \<and>
         (\<forall>c \<in> set pre. get_load w < get_load c) \<and>
         (\<forall>c \<in> set post. get_load w \<le> get_load c))"
  proof
    assume "candidates_for self e \<noteq> []"
    then obtain c cs where ccs: "candidates_for self e = c # cs"
      by (cases "candidates_for self e") auto
    then have sel: "select_worker self e = Some (min_loop get_load c cs)"
      by (simp add: select_worker_def)
    from min_loop_first_minimum[of c cs get_load] show
      "\<exists>pre w post. select_worker self e = Some w \<and>
         candidates_for self e = pre @ w # post \<and>
         (\<forall>c \<in> set pre. get_load w < get_load c) \<and>
         (\<forall>c \<in> set post. get_load w \<le> get_load c)"
      unfolding sel ccs by blast
  qed
  have missing: "\<forall>t. e = Some t \<and> t \<noteq> [] \<and> (\<forall>w \<in> set (map snd (workers self)). expertise w \<noteq> Some t)
        \<longrightarrow> select_worker self e = None"
  proof (intro allI impI)
    fix t
    assume "e = Some t \<and> t \<noteq> [] \<and> (\<forall>w \<in> set (map snd (workers self)). expertise w \<noteq> Some t)"
    then have "candidates_for self e = []"
      unfolding cands by (auto simp: filter_empty_conv)
    with empty show "select_worker self e = None" by simp
  qed
  show ?thesis
    using empty nonempty cands missing by (simp add: get_load_def)
qed

theorem select_worker_first_minimum_load_witness:
  "select_worker example_supervisor (Some ''python'')
     = Some \<lparr>name = ''w2'', expertise = Some ''python'', completed_tasks = 2, failed_tasks = 0\<rparr> \<and>
   select_worker example_supervisor None
     = Some \<lparr>name = ''w2'', expertise = Some ''python'', completed_tasks = 2, failed_tasks = 0\<rparr> \<and>
   select_worker example_supervisor (Some ''rust'') = None"
  using select_worker_first_minimum_load[of example_supervisor "Some ''python''"]
        select_worker_first_minimum_load[of example_supervisor None]
        select_worker_first_minimum_load[of example_supervisor "Some ''rust''"]
  by (simp add: select_worker_def candidates_for_def truthy_def register_worker_def
        SupervisorAgent_init_def get_load_def)

lemma attempt_loop_all_timed_out:
  assumes "\<forall>a \<in> set as. run a = TimedOut" and "as \<noteq> []"
  shows "\<exists>self'. attempt_loop run as task worker self = (Inr None, self') \<and>
           map_of (tasks self') (task_id task) = Some (task\<lparr>status := ''failed''\<rparr>) \<and>
           map_of (workers self') (name worker)
             = Some (worker\<lparr>failed_tasks := failed_tasks worker + int (length as)\<rparr>)"
  using assms
proof (induction as arbitrary: task worker self)
  case Nil
  then show ?case by simp
next
  case (Cons a as)
  have a: "run a = TimedOut" using Cons.prems by simp
  show ?case
  proof (cases "as = []")
    case True
    then show ?thesis
      using a by (simp add: Let_def update_conv')
  next
    case False
    let ?task = "task\<lparr>status := ''failed''\<rparr>"
    let ?worker = "worker\<lparr>failed_tasks := failed_tasks worker + 1\<rparr>"
    let ?self = "self\<lparr>tasks := AList.update (task_id task) ?task
                              (AList.update (task_id task) (task\<lparr>status := ''running''\<rparr>) (tasks self)),
                      workers := AList.update (name worker) ?worker (workers self)\<rparr>"
    have step: "attempt_loop run (a # as) task worker self = attempt_loop run as ?task ?worker ?self"
      using a by (simp add: Let_def)
    have "\<forall>a \<in> set as. run a = TimedOut" using Cons.prems by simp
    from Cons.IH[OF this False, of ?task ?worker ?self] show ?thesis
      unfolding step by (simp add: algebra_simps)
  qed
qed

text \<open>
  Claim C3. Let \<^verbatim>\<open>select_worker\<close> pick a worker and let every one of the
  \<^verbatim>\<open>max_retries\<close> attempts time out, with \<^verbatim>\<open>max_retries\<close> a positive integer as the
  configuration surface requires. Then \<^verbatim>\<open>delegate_task\<close> returns \<^verbatim>\<open>None\<close>; the task
  it recorded under the id \<^verbatim>\<open>task_\<close>\<open>n\<close>, with \<open>n\<close> the number of tasks recorded before,
  has status \<^verbatim>\<open>"failed"\<close> and no result when the call ends; and the selected worker's
  \<^verbatim>\<open>failed_tasks\<close> has grown by \<^verbatim>\<open>max_retries\<close>, one per attempt, its other fields
  unchanged.
\<close>

theorem delegate_task_all_attempts_time_out:
  assumes "select_worker self e = Some worker"
    and "1 \<le> max_retries self"
    and "\<forall>i < nat (max_retries self). run i = TimedOut"
  shows "\<exists>self'. delegate_task self task_description e run = (Inr None, self') \<and>
           map_of (tasks self') (''task_'' @ str_nat (length (tasks self)))
             = Some \<lparr>task_id = ''task_'' @ str_nat (length (tasks self)),
                     description = task_description,
                     assigned_to = Some (name worker),
                     status = ''failed'',
                     result = None\<rparr> \<and>
           map_of (workers self') (name worker)
             = Some (worker\<lparr>failed_tasks := failed_tasks worker + max_retries self\<rparr>)"
proof -
  let ?as = "[0..<nat (max_retries self)]"
  have all: "\<forall>a \<in> set ?as. run a = TimedOut" using assms(3) by simp
  have ne: "?as \<noteq> []" using assms(2) by simp
  have len: "int (length ?as) = max_retries self" using assms(2) by simp
  let ?task = "\<lparr>task_id = ''task_'' @ str_nat (length (tasks self)),
                 description = task_description,
                 assigned_to = Some (name worker),
                 status = ''pending'',
                 result = None :: 'a option\<rparr>"
  let ?self = "self\<lparr>tasks := AList.update (task_id ?task) ?task (tasks self)\<rparr>"
  have del: "delegate_task self task_description e run = attempt_loop run ?as ?task worker ?self"
    using assms(1) by (simp add: delegate_task_def Let_def)
  from attempt_loop_all_timed_out[OF all ne, of ?task worker ?self] show ?thesis
    unfolding del len by simp
qed

theorem delegate_task_all_attempts_time_out_witness:
  "select_worker example_supervisor (Some ''python'')
     = Some \<lparr>name = ''w2'', expertise = Some ''python'', completed_tasks = 2, failed_tasks = 0\<rparr> \<and>
   1 \<le> max_retries example_supervisor \<and>
   fst (delegate_task example_supervisor ''job'' (Some ''python'') (\<lambda>i. TimedOut)) = Inr None \<and>
   map_of (tasks (snd (delegate_task example_supervisor ''job'' (Some ''python'') (\<lambda>i. TimedOut))))
          ''task_0''
     = Some \<lparr>task_id = ''task_0'', description = ''job'', assigned_to = Some ''w2'',
             status = ''failed'', result = None\<rparr> \<and>
   map_of (workers (snd (delegate_task example_supervisor ''job'' (Some ''python'') (\<lambda>i. TimedOut))))
          ''w2''
     = Some \<lparr>name = ''w2'', expertise = Some ''python'', completed_tasks = 2, failed_tasks = 3\<rparr>"
  using delegate_task_all_attempts_time_out
          [of example_supervisor "Some ''python''"
              "\<lparr>name = ''w2'', expertise = Some ''python'', completed_tasks = 2, failed_tasks = 0\<rparr>"
              "\<lambda>i. TimedOut" "''job''"]
  by (simp add: select_worker_def candidates_for_def truthy_def register_worker_def
        SupervisorAgent_init_def get_load_def delegate_task_def str_nat.simps digit_char_def
        Let_def upt_rec update_conv')


section \<open>Properties of the swarm engine\<close>

lemma fresh_agent_indices: "1 \<le> n \<Longrightarrow> [0..n - 1] = 0 # [1..n - 1]"
  by (simp add: upto_rec1)

lemma fresh_positions:
  "map position (agents (SwarmIntelligence_init n d)) = replicate (length [0..n - 1]) ''origin''"
  by (simp add: SwarmIntelligence_init_def SwarmAgent_init_def map_replicate_const comp_def)

lemma fresh_unique_positions:
  assumes "1 \<le> n"
  shows "unique_positions (SwarmIntelligence_init n d) = 1"
proof -
  have "set (replicate (length [0..n - 1]) ''origin'') = {''origin''}"
    using assms by (auto simp: fresh_agent_indices)
  then show ?thesis
    by (simp add: unique_positions_def fresh_positions)
qed

lemma fresh_converged: "1 \<le> n \<Longrightarrow> is_converged (SwarmIntelligence_init n d) 0.8"
  by (simp add: is_converged_def fresh_unique_positions)

lemma optimization_loop_converged: "is_converged s 0.8 \<Longrightarrow> optimization_loop k s = (None, s)"
  by (cases k) simp_all

text \<open>
  Claim C10. For \<open>num_agents \<ge> 1\<close> a freshly constructed swarm has every agent at
  \<^verbatim>\<open>"origin"\<close>, so \<^verbatim>\<open>is_converged(0.8)\<close> holds before any iteration, and
  \<^verbatim>\<open>swarm_optimization\<close> (for any iteration cap) returns \<^verbatim>\<open>"origin"\<close> and leaves the
  swarm exactly as constructed: timestep 0 and an empty pheromone map.
\<close>

theorem fresh_swarm_converged_at_origin:
  assumes "1 \<le> n"
  shows "(\<forall>a \<in> set (agents (SwarmIntelligence_init n d)). position a = ''origin'') \<and>
     is_converged (SwarmIntelligence_init n d) 0.8 \<and>
     swarm_optimization (SwarmIntelligence_init n d) m = (Inr ''origin'', SwarmIntelligence_init n d) \<and>
     timestep (snd (swarm_optimization (SwarmIntelligence_init n d) m)) = 0 \<and>
     environment_pheromones (snd (swarm_optimization (SwarmIntelligence_init n d) m)) = []"
proof -
  have conv: "is_converged (SwarmIntelligence_init n d) 0.8"
    using assms by (rule fresh_converged)
  have pos: "\<forall>a \<in> set (agents (SwarmIntelligence_init n d)). position a = ''origin''"
    by (auto simp: SwarmIntelligence_init_def SwarmAgent_init_def)
  have first: "\<exists>a rest. agents (SwarmIntelligence_init n d) = a # rest"
    using assms by (simp add: SwarmIntelligence_init_def fresh_agent_indices)
  have opt: "swarm_optimization (SwarmIntelligence_init n d) m
               = (Inr ''origin'', SwarmIntelligence_init n d)"
    using first pos by (auto simp: swarm_optimization_def optimization_loop_converged[OF conv])
  show ?thesis
    using conv pos opt by (simp add: SwarmIntelligence_init_def)
qed

theorem fresh_swarm_converged_at_origin_witness:
  "(1::int) \<le> 3 \<and>
   is_converged (SwarmIntelligence_init 3 0.1) 0.8 \<and>
   swarm_optimization (SwarmIntelligence_init 3 0.1) 100
     = (Inr ''origin'', SwarmIntelligence_init 3 0.1) \<and>
   timestep (snd (swarm_optimization (SwarmIntelligence_init 3 0.1) 100)) = 0 \<and>
   environment_pheromones (snd (swarm_optimization (SwarmIntelligence_init 3 0.1) 100)) = []"
  using fresh_swarm_converged_at_origin[of 3 "0.1" 100]
  by (simp add: SwarmIntelligence_init_def)


section \<open>Stored confidence and pheromone values\<close>

lemma add_vote_clamps:
  "\<exists>v. votes (add_vote self agent opt conf reason) = votes self @ [v] \<and>
       confidence v = max 0 (min 1 conf) \<and> in_unit_interval (confidence v)"
  by (simp add: add_vote_def Let_def in_unit_interval_def)

lemma list_all_update:
  "list_all P al \<Longrightarrow> P (k, v) \<Longrightarrow> list_all P (AList.update k v al)"
  by (induction al) auto

lemma list_all_map_entry:
  "list_all P al \<Longrightarrow> (\<And>v. P (k, v) \<Longrightarrow> P (k, f v)) \<Longrightarrow> list_all P (AList.map_entry k f al)"
  by (induction al) auto

lemma deposit_existing:
  assumes "map_of (environment_pheromones self) loc = Some p"
  shows "map_of (environment_pheromones (deposit_pheromone self loc v)) loc
           = Some (p\<lparr>pheromone_value := min 1 (pheromone_value p + v)\<rparr>)"
  using assms by (simp add: deposit_pheromone_def map_of_map_entry)

lemma deposit_in_range:
  assumes "pheromones_in_range self" and "0 \<le> v"
    and "v \<le> 1 \<or> map_of (environment_pheromones self) loc \<noteq> None"
  shows "pheromones_in_range (deposit_pheromone self loc v)"
proof (cases "map_of (environment_pheromones self) loc = None")
  case True
  with assms(3) have "v \<le> 1" by simp
  with assms(1,2) True show ?thesis
    by (simp add: pheromones_in_range_def deposit_pheromone_def list_all_update in_unit_interval_def)
next
  case False
  have "list_all (\<lambda>(loc, p). in_unit_interval (pheromone_value p))
          (AList.map_entry loc (\<lambda>p. p\<lparr>pheromone_value := min 1 (pheromone_value p + v)\<rparr>)
             (environment_pheromones self))"
    using assms(1,2)
    by (intro list_all_map_entry) (auto simp: pheromones_in_range_def in_unit_interval_def)
  moreover from False obtain p where "map_of (environment_pheromones self) loc = Some p"
    by auto
  ultimately show ?thesis
    by (simp add: pheromones_in_range_def deposit_pheromone_def)
qed

lemma deposit_keeps_decay [simp]:
  "decay_rate (deposit_pheromone self loc v) = decay_rate self"
  by (simp add: deposit_pheromone_def)

lemma update_agents_in_range:
  "pheromones_in_range self \<Longrightarrow> pheromones_in_range (snd (update_agents pm ags self))"
proof (induction ags arbitrary: self)
  case Nil
  then show ?case by simp
next
  case (Cons a ags)
  let ?loc = "decide_next_location (sense_pheromones a pm)"
  have "pheromones_in_range (deposit_pheromone self ?loc 0.1)"
    using Cons.prems by (intro deposit_in_range) simp_all
  from Cons.IH[OF this] show ?case
    by (simp add: Let_def split_def)
qed

lemma update_agents_keeps_decay:
  "decay_rate (snd (update_agents pm ags self)) = decay_rate self"
  by (induction ags arbitrary: self) (simp_all add: Let_def split_def)

lemma update_agent_positions_in_range:
  "pheromones_in_range self \<Longrightarrow> pheromones_in_range (update_agent_positions self)"
  using update_agents_in_range[of self]
  by (simp add: update_agent_positions_def Let_def split_def pheromones_in_range_def)

lemma update_agent_positions_keeps_decay:
  "decay_rate (update_agent_positions self) = decay_rate self"
  by (simp add: update_agent_positions_def Let_def split_def update_agents_keeps_decay)

lemma evaporate_in_range:
  assumes "pheromones_in_range self" and "0 \<le> decay_rate self" and "decay_rate self \<le> 1"
  shows "pheromones_in_range (evaporate_pheromones self)"
proof -
  have "\<And>x. 0 \<le> x \<Longrightarrow> x \<le> 1 \<Longrightarrow> 0 \<le> x * (1 - decay_rate self) \<and> x * (1 - decay_rate self) \<le> 1"
    using assms(2,3) by (simp add: mult_le_one)
  then show ?thesis
    using assms(1)
    by (auto simp: pheromones_in_range_def evaporate_pheromones_def in_unit_interval_def
          list_all_iff)
qed

lemma run_iteration_in_range:
  assumes "pheromones_in_range self" and "0 \<le> decay_rate self" and "decay_rate self \<le> 1"
  shows "pheromones_in_range (snd (run_iteration self)) \<and>
         decay_rate (snd (run_iteration self)) = decay_rate self"
proof -
  let ?s1 = "update_agent_positions self"
  let ?s2 = "evaporate_pheromones ?s1"
  have d1: "decay_rate ?s1 = decay_rate self"
    by (rule update_agent_positions_keeps_decay)
  have r2: "pheromones_in_range ?s2"
    using assms by (intro evaporate_in_range update_agent_positions_in_range) (simp_all add: d1)
  have d2: "decay_rate ?s2 = decay_rate self"
    by (simp add: evaporate_pheromones_def d1)
  have snd_eq: "snd (run_iteration self) = ?s2\<lparr>timestep := timestep ?s2 + 1\<rparr>"
    by (simp add: run_iteration_def Let_def)
  show ?thesis
    using r2 d2 unfolding snd_eq by (simp add: pheromones_in_range_def)
qed

lemma debate_in_range_iff:
  "debate_confidences_in_range (snd (run_debate self topic p)) \<longleftrightarrow> num_rounds self \<le> 4"
proof -
  have each: "\<And>i. ((case proposer_argument (make_round self p i) of None \<Rightarrow> True
                       | Some a \<Rightarrow> in_unit_interval (confidence_score a)) \<and>
                    (case critic_argument (make_round self p i) of None \<Rightarrow> True
                       | Some a \<Rightarrow> in_unit_interval (confidence_score a)))
                 \<longleftrightarrow> (0 \<le> 0.8 + real_of_int i * 0.05 \<and> 0.8 + real_of_int i * 0.05 \<le> 1 \<and>
                      0 \<le> 0.7 + real_of_int i * 0.04 \<and> 0.7 + real_of_int i * 0.04 \<le> (1::real))"
    by (simp add: make_round_def Let_def in_unit_interval_def)
  have range: "\<And>i::int. 1 \<le> i \<Longrightarrow>
       (0 \<le> 0.8 + real_of_int i * 0.05 \<and> 0.8 + real_of_int i * 0.05 \<le> 1 \<and>
        0 \<le> 0.7 + real_of_int i * 0.04 \<and> 0.7 + real_of_int i * 0.04 \<le> (1::real)) \<longleftrightarrow> i \<le> 4"
    by auto
  have "debate_confidences_in_range (snd (run_debate self topic p))
          \<longleftrightarrow> (\<forall>i \<in> set [1..num_rounds self]. i \<le> 4)"
    unfolding debate_confidences_in_range_def run_debate_rounds list_all_iff
    using each range by auto
  also have "\<dots> \<longleftrightarrow> num_rounds self \<le> 4"
    by auto
  finally show ?thesis .
qed

text \<open>
  Claim C1, as the code has it. \<^verbatim>\<open>add_vote\<close> stores \<^verbatim>\<open>max(0.0, min(1.0, confidence))\<close>, so
  the votes of an engine are between 0 and 1 from its creation on, whatever confidence
  is passed. A swarm starts with no pheromone; a deposit at a location that has one stores
  \<^verbatim>\<open>min(1.0, old + amount)\<close>, and the pheromone values stay between 0 and 1 under a deposit
  of a non-negative amount that is at most 1 or goes to a location that already has a
  pheromone, and under \<^verbatim>\<open>evaporate_pheromones\<close> and \<^verbatim>\<open>run_iteration\<close> when the decay rate
  is between 0 and 1 (\<^verbatim>\<open>run_iteration\<close> keeps the decay rate). The arguments of round \<open>r\<close>
  of \<^verbatim>\<open>run_debate\<close> carry the confidence scores \<open>0.8 + 0.05 r\<close> and \<open>0.7 + 0.04 r\<close> with no
  clamping, so all of them are between 0 and 1 exactly when \<^verbatim>\<open>num_rounds\<close> is at most 4.
\<close>

theorem stored_values_in_unit_interval:
  "vote_confidences_in_range (ConsensusEngine_init st) \<and>
   (\<exists>v. votes (add_vote ce agent opt conf reason) = votes ce @ [v] \<and>
        confidence v = max 0 (min 1 conf) \<and> in_unit_interval (confidence v)) \<and>
   (vote_confidences_in_range ce \<longrightarrow>
      vote_confidences_in_range (add_vote ce agent opt conf reason)) \<and>
   pheromones_in_range (SwarmIntelligence_init n rate) \<and>
   (\<forall>old. map_of (environment_pheromones sw) loc = Some old \<longrightarrow>
      map_of (environment_pheromones (deposit_pheromone sw loc amount)) loc
        = Some (old\<lparr>pheromone_value := min 1 (pheromone_value old + amount)\<rparr>)) \<and>
   (pheromones_in_range sw \<and> 0 \<le> amount \<and>
      (amount \<le> 1 \<or> map_of (environment_pheromones sw) loc \<noteq> None) \<longrightarrow>
      pheromones_in_range (deposit_pheromone sw loc amount)) \<and>
   (pheromones_in_range sw \<and> 0 \<le> decay_rate sw \<and> decay_rate sw \<le> 1 \<longrightarrow>
      pheromones_in_range (evaporate_pheromones sw) \<and>
      pheromones_in_range (snd (run_iteration sw)) \<and>
      decay_rate (snd (run_iteration sw)) = decay_rate sw) \<and>
   (\<forall>r \<in> set (rounds (snd (run_debate orch topic proposal))).
      map_option confidence_score (proposer_argument r)
        = Some (0.8 + real_of_int (round_number r) * 0.05) \<and>
      map_option confidence_score (critic_argument r)
        = Some (0.7 + real_of_int (round_number r) * 0.04)) \<and>
   (debate_confidences_in_range (snd (run_debate orch topic proposal))
      \<longleftrightarrow> num_rounds orch \<le> 4)"
proof -
  have v0: "vote_confidences_in_range (ConsensusEngine_init st)"
    by (simp add: vote_confidences_in_range_def ConsensusEngine_init_def)
  have v1: "\<exists>v. votes (add_vote ce agent opt conf reason) = votes ce @ [v] \<and>
        confidence v = max 0 (min 1 conf) \<and> in_unit_interval (confidence v)"
    by (rule add_vote_clamps)
  have v2: "vote_confidences_in_range ce \<longrightarrow>
      vote_confidences_in_range (add_vote ce agent opt conf reason)"
    using v1 by (auto simp: vote_confidences_in_range_def)
  have p0: "pheromones_in_range (SwarmIntelligence_init n rate)"
    by (simp add: pheromones_in_range_def SwarmIntelligence_init_def)
  have p1: "\<forall>old. map_of (environment_pheromones sw) loc = Some old \<longrightarrow>
      map_of (environment_pheromones (deposit_pheromone sw loc amount)) loc
        = Some (old\<lparr>pheromone_value := min 1 (pheromone_value old + amount)\<rparr>)"
    by (intro allI impI) (rule deposit_existing)
  have p2: "pheromones_in_range sw \<and> 0 \<le> amount \<and>
      (amount \<le> 1 \<or> map_of (environment_pheromones sw) loc \<noteq> None) \<longrightarrow>
      pheromones_in_range (deposit_pheromone sw loc amount)"
    using deposit_in_range[of sw amount loc] by blast
  have p3: "pheromones_in_range sw \<and> 0 \<le> decay_rate sw \<and> decay_rate sw \<le> 1 \<longrightarrow>
      pheromones_in_range (evaporate_pheromones sw) \<and>
      pheromones_in_range (snd (run_iteration sw)) \<and>
      decay_rate (snd (run_iteration sw)) = decay_rate sw"
    using evaporate_in_range[of sw] run_iteration_in_range[of sw] by blast
  have d0: "\<forall>r \<in> set (rounds (snd (run_debate orch topic proposal))).
      map_option confidence_score (proposer_argument r)
        = Some (0.8 + real_of_int (round_number r) * 0.05) \<and>
      map_option confidence_score (critic_argument r)
        = Some (0.7 + real_of_int (round_number r) * 0.04)"
    unfolding run_debate_rounds by (auto simp: make_round_def Let_def)
  have d1: "debate_confidences_in_range (snd (run_debate orch topic proposal))
      \<longleftrightarrow> num_rounds orch \<le> 4"
    by (rule debate_in_range_iff)
  from v0 v1 v2 p0 p1 p2 p3 d0 d1 show ?thesis
    by (intro conjI)
qed

theorem stored_values_in_unit_interval_witness:
  "confidence (last (votes (add_vote (ConsensusEngine_init SIMPLE_MAJORITY) ''a1'' ''yes'' 7 []))) = 1 \<and>
   vote_confidences_in_range (add_vote (ConsensusEngine_init SIMPLE_MAJORITY) ''a1'' ''yes'' 7 []) \<and>
   pheromones_in_range example_swarm \<and>
   map_option pheromone_value
     (map_of (environment_pheromones (deposit_pheromone example_swarm ''x'' 0.8)) ''x'') = Some 1 \<and>
   pheromones_in_range (deposit_pheromone example_swarm ''x'' 0.8) \<and>
   decay_rate example_swarm = 0.1 \<and>
   pheromones_in_range (evaporate_pheromones example_swarm) \<and>
   pheromones_in_range (snd (run_iteration example_swarm)) \<and>
   num_rounds (DebateOrchestrator_init 4 ''entropy_reduction'') = 4 \<and>
   debate_confidences_in_range
     (snd (run_debate (DebateOrchestrator_init 4 ''entropy_reduction'') ''topic'' ''claim''))"
  using stored_values_in_unit_interval
          [where st = SIMPLE_MAJORITY and ce = "ConsensusEngine_init SIMPLE_MAJORITY" and agent = "''a1''"
             and opt = "''yes''" and conf = 7 and reason = "[]" and n = 2 and rate = "0.1"
             and sw = example_swarm and loc = "''x''" and amount = "0.8"
             and orch = "DebateOrchestrator_init 4 ''entropy_reduction''"
             and topic = "''topic''" and proposal = "''claim''"]
  by (simp add: add_vote_def ConsensusEngine_init_def vote_confidences_in_range_def
        in_unit_interval_def pheromones_in_range_def deposit_pheromone_def
        SwarmIntelligence_init_def DebateOrchestrator_init_def evaporate_pheromones_def)

text \<open>
  With five rounds the proposer's confidence score of the last round is 1.05, above 1.
\<close>

theorem debate_confidence_exceeds_one_counterexample:
  "num_rounds (DebateOrchestrator_init 5 ''entropy_reduction'') = 5 \<and>
   map (map_option confidence_score \<circ> proposer_argument)
     (rounds (snd (run_debate (DebateOrchestrator_init 5 ''entropy_reduction'') ''topic'' ''claim'')))
     = [Some 0.85, Some 0.9, Some 0.95, Some 1, Some 1.05] \<and>
   \<not> in_unit_interval 1.05 \<and>
   \<not> debate_confidences_in_range
       (snd (run_debate (DebateOrchestrator_init 5 ''entropy_reduction'') ''topic'' ''claim''))"
proof -
  have upto: "[1..5::int] = [1, 2, 3, 4, 5]"
    by (simp add: upto.simps)
  show ?thesis
    unfolding run_debate_rounds debate_confidences_in_range_def
    by (simp add: DebateOrchestrator_init_def upto make_round_def Let_def in_unit_interval_def)
qed

end
